theory Spec2Isabelle
  imports Main "HOL-Library.Char_ord" "HOL-Library.List_Lexorder" "HOL-Library.Monad_Syntax"
    "HOL-Library.AList"
begin

section \<open>Data model of \<^verbatim>\<open>notification_system.py\<close>\<close>

text \<open>
  The three enumerations of the module, each with its \<^verbatim>\<open>.value\<close> string and the
  lookup by value that the enum constructor performs (\<^verbatim>\<open>NotificationLevel("INFO")\<close>);
  a string that names no member raises \<^verbatim>\<open>ValueError\<close>, here \<open>None\<close>.
\<close>

datatype NotificationLevel = DEBUG | INFO | WARNING | ERROR | CRITICAL

datatype NotificationStatus = PENDING | SENT | FAILED | RETRYING | ARCHIVED

datatype AlertRuleType = THRESHOLD | EVENT | TIME_BASED | PATTERN

fun level_value :: "NotificationLevel \<Rightarrow> string" where
  "level_value DEBUG = ''DEBUG''"
| "level_value INFO = ''INFO''"
| "level_value WARNING = ''WARNING''"
| "level_value ERROR = ''ERROR''"
| "level_value CRITICAL = ''CRITICAL''"

fun status_value :: "NotificationStatus \<Rightarrow> string" where
  "status_value PENDING = ''PENDING''"
| "status_value SENT = ''SENT''"
| "status_value FAILED = ''FAILED''"
| "status_value RETRYING = ''RETRYING''"
| "status_value ARCHIVED = ''ARCHIVED''"

fun rule_type_value :: "AlertRuleType \<Rightarrow> string" where
  "rule_type_value THRESHOLD = ''THRESHOLD''"
| "rule_type_value EVENT = ''EVENT''"
| "rule_type_value TIME_BASED = ''TIME_BASED''"
| "rule_type_value PATTERN = ''PATTERN''"

definition level_of_value :: "string \<Rightarrow> NotificationLevel option" where
  "level_of_value s = find (\<lambda>l. level_value l = s) [DEBUG, INFO, WARNING, ERROR, CRITICAL]"

definition status_of_value :: "string \<Rightarrow> NotificationStatus option" where
  "status_of_value s =
     find (\<lambda>st. status_value st = s) [PENDING, SENT, FAILED, RETRYING, ARCHIVED]"

text \<open>A call that may raise: its value, or the exception's message.\<close>

datatype 'a outcome = Returns 'a | Raises string

definition try_except :: "'a outcome \<Rightarrow> (string \<Rightarrow> 'a outcome) \<Rightarrow> 'a outcome" where
  "try_except attempt handler = (case attempt of Returns x \<Rightarrow> Returns x | Raises e \<Rightarrow> handler e)"

definition and_then :: "'a outcome \<Rightarrow> ('a \<Rightarrow> 'b outcome) \<Rightarrow> 'b outcome" where
  "and_then m f = (case m of Returns x \<Rightarrow> f x | Raises e \<Rightarrow> Raises e)"

text \<open>
  The values a \<^verbatim>\<open>Dict[str, Any]\<close> can hold at run time (metadata, audit details, event
  payloads): the types JSON knows, tuples, and any other object (a \<^verbatim>\<open>datetime\<close>, a
  \<^verbatim>\<open>set\<close>), named by its class. A float is written as its \<^verbatim>\<open>repr\<close>. A dict is the list
  of its items in insertion order; its keys need not be strings.
\<close>

datatype pyval =
    PNone
  | PBool bool
  | PInt int
  | PFloat string
  | PStr string
  | PList "pyval list"
  | PTuple "pyval list"
  | PDict "(pyval \<times> pyval) list"
  | PObject string

type_synonym pydict = "(pyval \<times> pyval) list"

text \<open>A JSON document.\<close>

datatype json =
    JNull
  | JBool bool
  | JInt int
  | JFloat string
  | JStr string
  | JArr "json list"
  | JObj "(string \<times> json) list"

text \<open>
  A \<^verbatim>\<open>datetime\<close> is a count of microseconds, a \<^verbatim>\<open>timedelta\<close> a difference of
  such counts.
\<close>

type_synonym datetime = int

definition timedelta_minutes :: "int \<Rightarrow> int" where
  "timedelta_minutes m = m * 60000000"

definition timedelta_days :: "int \<Rightarrow> int" where
  "timedelta_days d = d * 86400000000"

record Notification =
  notification_id :: string
  level :: NotificationLevel
  subject :: string
  body :: string
  recipients :: "string list"
  status :: NotificationStatus
  created_at :: datetime
  sent_at :: "datetime option"
  retry_count :: int
  max_retries :: int
  next_retry :: "datetime option"
  error_message :: "string option"
  metadata :: pydict

text \<open>
  The dataclass constructor as \<^verbatim>\<open>send_notification\<close> calls it: the six fields it
  passes, \<^verbatim>\<open>created_at\<close> from the default factory \<^verbatim>\<open>datetime.utcnow\<close>, every other
  field at its declared default.
\<close>

definition new_notification ::
  "string \<Rightarrow> NotificationLevel \<Rightarrow> string \<Rightarrow> string \<Rightarrow> string list \<Rightarrow> pydict \<Rightarrow> datetime
     \<Rightarrow> Notification" where
  "new_notification i lv subj bdy rcpts md now =
     \<lparr> notification_id = i, level = lv, subject = subj, body = bdy, recipients = rcpts,
       status = PENDING, created_at = now, sent_at = None, retry_count = 0,
       max_retries = 3, next_retry = None, error_message = None, metadata = md \<rparr>"



section \<open>Library functions the module calls\<close>

text \<open>
  \<^verbatim>\<open>datetime.isoformat\<close>, \<^verbatim>\<open>datetime.fromisoformat\<close>, \<^verbatim>\<open>json.dumps\<close> and
  \<^verbatim>\<open>json.loads\<close> belong to the Python library, not to the module. What they do with
  text is a parameter of the functions below: the ISO text of a datetime and its parser,
  the text of a JSON document (compact, and with \<^verbatim>\<open>indent=2\<close>) and its parser. A
  parser that raises \<^verbatim>\<open>ValueError\<close> returns \<open>None\<close>.
\<close>

record pylib =
  isoformat :: "datetime \<Rightarrow> string"
  fromisoformat :: "string \<Rightarrow> datetime option"
  json_text :: "json \<Rightarrow> string"
  json_text_indent2 :: "json \<Rightarrow> string"
  json_parse :: "string \<Rightarrow> json option"

text \<open>\<^verbatim>\<open>str\<close> of an integer: its decimal digits.\<close>

definition digit_char :: "nat \<Rightarrow> char" where
  "digit_char d = ''0123456789'' ! (d mod 10)"

function nat_repr :: "nat \<Rightarrow> string" where
  "nat_repr n = (if n < 10 then [digit_char n] else nat_repr (n div 10) @ [digit_char (n mod 10)])"
  by pat_completeness auto
termination
  by (relation "measure (\<lambda>n. n)") auto

definition int_repr :: "int \<Rightarrow> string" where
  "int_repr i = (if i < 0 then CHR ''-'' # nat_repr (nat (- i)) else nat_repr (nat i))"

text \<open>
  What \<^verbatim>\<open>json.dumps\<close> makes of a Python value before it writes text. A list and a tuple
  both become an array. A dict becomes an object; a key that is a string, an integer, a
  float, a boolean or \<^verbatim>\<open>None\<close> becomes a string, any other key raises \<^verbatim>\<open>TypeError\<close>,
  and so does any value of another class. \<open>encodable\<close> says that nothing raises;
  \<open>to_json\<close> is the document for an encodable value.
\<close>

fun json_key :: "pyval \<Rightarrow> string option" where
  "json_key (PStr s) = Some s"
| "json_key (PInt i) = Some (int_repr i)"
| "json_key (PFloat r) = Some r"
| "json_key (PBool b) = Some (if b then ''true'' else ''false'')"
| "json_key PNone = Some ''null''"
| "json_key _ = None"

fun encodable :: "pyval \<Rightarrow> bool" where
  "encodable (PList vs) = list_all encodable vs"
| "encodable (PTuple vs) = list_all encodable vs"
| "encodable (PDict kvs) = list_all (\<lambda>kv. json_key (fst kv) \<noteq> None \<and> encodable (snd kv)) kvs"
| "encodable (PObject c) = False"
| "encodable v = True"

fun to_json :: "pyval \<Rightarrow> json" where
  "to_json PNone = JNull"
| "to_json (PBool b) = JBool b"
| "to_json (PInt i) = JInt i"
| "to_json (PFloat r) = JFloat r"
| "to_json (PStr s) = JStr s"
| "to_json (PList vs) = JArr (map to_json vs)"
| "to_json (PTuple vs) = JArr (map to_json vs)"
| "to_json (PDict kvs) =
     JObj (map (\<lambda>kv. (case json_key (fst kv) of Some s \<Rightarrow> s | None \<Rightarrow> [], to_json (snd kv))) kvs)"
| "to_json (PObject c) = JNull"

definition json_dumps :: "pylib \<Rightarrow> pyval \<Rightarrow> string outcome" where
  "json_dumps L v = (if encodable v then Returns (json_text L (to_json v)) else Raises ''TypeError'')"

definition json_dumps_indent2 :: "pylib \<Rightarrow> pyval \<Rightarrow> string outcome" where
  "json_dumps_indent2 L v =
     (if encodable v then Returns (json_text_indent2 L (to_json v)) else Raises ''TypeError'')"

text \<open>
  What \<^verbatim>\<open>json.loads\<close> makes of the document it parsed: an array becomes a list, an
  object a dict with string keys in which a repeated key keeps its first place and its
  last value.
\<close>

definition dict_of_pairs :: "(pyval \<times> pyval) list \<Rightarrow> (pyval \<times> pyval) list" where
  "dict_of_pairs kvs = foldl (\<lambda>d kv. AList.update (fst kv) (snd kv) d) [] kvs"

fun of_json :: "json \<Rightarrow> pyval" where
  "of_json JNull = PNone"
| "of_json (JBool b) = PBool b"
| "of_json (JInt i) = PInt i"
| "of_json (JFloat r) = PFloat r"
| "of_json (JStr s) = PStr s"
| "of_json (JArr js) = PList (map of_json js)"
| "of_json (JObj kvs) = PDict (dict_of_pairs (map (\<lambda>kv. (PStr (fst kv), of_json (snd kv))) kvs))"

definition json_loads :: "pylib \<Rightarrow> string \<Rightarrow> pyval option" where
  "json_loads L s = map_option of_json (json_parse L s)"

text \<open>
  The values that JSON hands back as they were: no tuple, no object of another class,
  no float \<^verbatim>\<open>nan\<close> (which is not equal to itself), and dicts whose keys are strings,
  each once.
\<close>

fun is_str :: "pyval \<Rightarrow> bool" where
  "is_str (PStr s) = True"
| "is_str v = False"

fun json_native :: "pyval \<Rightarrow> bool" where
  "json_native (PFloat r) = (r \<noteq> ''nan'')"
| "json_native (PList vs) = list_all json_native vs"
| "json_native (PTuple vs) = False"
| "json_native (PDict kvs) =
     (distinct (map fst kvs) \<and> list_all (\<lambda>kv. is_str (fst kv) \<and> json_native (snd kv)) kvs)"
| "json_native (PObject c) = False"
| "json_native v = True"

text \<open>The Python-side type of a loaded document: a list of strings, a dict.\<close>

fun str_of_py :: "pyval \<Rightarrow> string option" where
  "str_of_py (PStr s) = Some s"
| "str_of_py v = None"

fun str_list_of_py :: "pyval \<Rightarrow> string list option" where
  "str_list_of_py (PList vs) = those (map str_of_py vs)"
| "str_list_of_py v = None"

fun dict_of_py :: "pyval \<Rightarrow> pydict option" where
  "dict_of_py (PDict kvs) = Some kvs"
| "dict_of_py v = None"
section \<open>NotificationDatabase\<close>

text \<open>
  A table is the list of its rows, a row the list of its column values in the order of
  the \<^verbatim>\<open>CREATE TABLE\<close> statement, which is the order \<^verbatim>\<open>SELECT *\<close> returns and
  \<^verbatim>\<open>_row_to_notification\<close> indexes. The tables are taken to exist with the columns
  that \<^verbatim>\<open>_init_database\<close> lists; its statements are not part of the model. The
  \<^verbatim>\<open>alert_rules\<close> table is never read or written by the module and is left out.
\<close>

datatype sqlval = Null | Integer int | Text string

type_synonym row = "sqlval list"

record NotificationDatabase =
  notifications :: "row list"
  notification_audit :: "row list"

definition col :: "row \<Rightarrow> nat \<Rightarrow> sqlval" where
  "col r i = (if i < length r then r ! i else Null)"

text \<open>Python truthiness of a column value, as tested by \<^verbatim>\<open>if row[7]\<close>.\<close>

fun truthy :: "sqlval \<Rightarrow> bool" where
  "truthy Null = False"
| "truthy (Integer i) = (i \<noteq> 0)"
| "truthy (Text s) = (s \<noteq> [])"

fun text_of :: "sqlval \<Rightarrow> string option" where
  "text_of (Text s) = Some s"
| "text_of _ = None"

fun int_of :: "sqlval \<Rightarrow> int option" where
  "int_of (Integer i) = Some i"
| "int_of _ = None"

fun opt_text_of :: "sqlval \<Rightarrow> string option option" where
  "opt_text_of Null = Some None"
| "opt_text_of (Text s) = Some (Some s)"
| "opt_text_of (Integer i) = None"

text \<open>
  SQLite's comparison \<open><\<close> under the default collation: \<^verbatim>\<open>NULL\<close> compares as
  unknown, an integer sorts before any text, two texts compare byte by byte.
\<close>

fun sql_less :: "sqlval \<Rightarrow> sqlval \<Rightarrow> bool" where
  "sql_less (Text a) (Text b) = (a < b)"
| "sql_less (Integer a) (Integer b) = (a < b)"
| "sql_less (Integer a) (Text b) = True"
| "sql_less _ _ = False"

fun opt_col :: "('a \<Rightarrow> string) \<Rightarrow> 'a option \<Rightarrow> sqlval" where
  "opt_col f None = Null"
| "opt_col f (Some x) = Text (f x)"

text \<open>
  The thirteen values bound by the \<^verbatim>\<open>INSERT OR REPLACE\<close> of \<^verbatim>\<open>save_notification\<close>,
  when the two calls of \<^verbatim>\<open>json.dumps\<close> that compute them return.
\<close>

definition notification_row :: "pylib \<Rightarrow> Notification \<Rightarrow> row" where
  "notification_row L n =
     [ Text (notification_id n),
       Text (level_value (level n)),
       Text (subject n),
       Text (body n),
       Text (json_text L (to_json (PList (map PStr (recipients n))))),
       Text (status_value (status n)),
       Text (isoformat L (created_at n)),
       opt_col (isoformat L) (sent_at n),
       Integer (retry_count n),
       Integer (max_retries n),
       opt_col (isoformat L) (next_retry n),
       opt_col (\<lambda>s. s) (error_message n),
       Text (json_text L (to_json (PDict (metadata n)))) ]"

text \<open>
  \<^verbatim>\<open>INSERT OR REPLACE\<close> on the primary key \<^verbatim>\<open>id\<close> (column 0): a row with the same
  key is deleted, then the new row is inserted.
\<close>

definition insert_or_replace :: "row \<Rightarrow> row list \<Rightarrow> row list" where
  "insert_or_replace r tbl = filter (\<lambda>r'. col r' 0 \<noteq> col r 0) tbl @ [r]"

text \<open>
  Each database method runs its statements inside \<^verbatim>\<open>try\<close> and turns any exception
  into its failure value. Whether the \<^verbatim>\<open>sqlite3\<close> calls go through is the argument
  \<open>io\<close>: with \<open>io = False\<close> they raise and the table is as before. In
  \<^verbatim>\<open>save_notification\<close> the \<^verbatim>\<open>json.dumps\<close> of the metadata can raise as well (a list of
  strings always encodes).
\<close>

definition save_notification ::
  "pylib \<Rightarrow> bool \<Rightarrow> NotificationDatabase \<Rightarrow> Notification \<Rightarrow> bool \<times> NotificationDatabase" where
  "save_notification L io d n =
     (if io \<and> encodable (PDict (metadata n))
      then (True, d\<lparr>notifications := insert_or_replace (notification_row L n) (notifications d)\<rparr>)
      else (False, d))"

text \<open>
  \<^verbatim>\<open>_row_to_notification\<close>. A column whose text does not parse makes the Python raise;
  so does, here, a column of the wrong storage class or a document of the wrong type. The
  callers catch the exception: \<^verbatim>\<open>get_notification\<close> returns \<^verbatim>\<open>None\<close>,
  \<^verbatim>\<open>get_pending_notifications\<close> the empty list.
\<close>

definition opt_datetime :: "pylib \<Rightarrow> sqlval \<Rightarrow> datetime option option" where
  "opt_datetime L c =
     (if truthy c then map_option Some (text_of c \<bind> fromisoformat L) else Some None)"

definition row_to_notification :: "pylib \<Rightarrow> row \<Rightarrow> Notification option" where
  "row_to_notification L r =
     (case r of
        [c0, c1, c2, c3, c4, c5, c6, c7, c8, c9, c10, c11, c12] \<Rightarrow>
          do {
            i \<leftarrow> text_of c0;
            lv \<leftarrow> text_of c1 \<bind> level_of_value;
            subj \<leftarrow> text_of c2;
            bdy \<leftarrow> text_of c3;
            rcpts \<leftarrow> text_of c4 \<bind> json_loads L \<bind> str_list_of_py;
            st \<leftarrow> text_of c5 \<bind> status_of_value;
            ca \<leftarrow> text_of c6 \<bind> fromisoformat L;
            sa \<leftarrow> opt_datetime L c7;
            rc \<leftarrow> int_of c8;
            mr \<leftarrow> int_of c9;
            nr \<leftarrow> opt_datetime L c10;
            em \<leftarrow> opt_text_of c11;
            md \<leftarrow> (if truthy c12 then text_of c12 \<bind> json_loads L \<bind> dict_of_py else Some []);
            Some \<lparr> notification_id = i, level = lv, subject = subj, body = bdy,
                   recipients = rcpts, status = st, created_at = ca, sent_at = sa,
                   retry_count = rc, max_retries = mr, next_retry = nr,
                   error_message = em, metadata = md \<rparr>
          }
      | _ \<Rightarrow> None)"

definition get_notification ::
  "pylib \<Rightarrow> bool \<Rightarrow> NotificationDatabase \<Rightarrow> string \<Rightarrow> Notification option" where
  "get_notification L io d i =
     (if io then
        (case find (\<lambda>r. col r 0 = Text i) (notifications d) of
           Some r \<Rightarrow> row_to_notification L r
         | None \<Rightarrow> None)
      else None)"




text \<open>
  \<^verbatim>\<open>log_audit_event\<close>: the autoincrement key, then the four bound values; the details
  are stored as JSON text unless they are \<^verbatim>\<open>None\<close> or an empty dict.
\<close>

definition log_audit_event ::
  "pylib \<Rightarrow> bool \<Rightarrow> datetime \<Rightarrow> NotificationDatabase \<Rightarrow> string \<Rightarrow> string \<Rightarrow> pydict option
     \<Rightarrow> bool \<times> NotificationDatabase" where
  "log_audit_event L io now d i event details =
     (if io \<and> (case details of None \<Rightarrow> True | Some kvs \<Rightarrow> encodable (PDict kvs)) then
        (True, d\<lparr>notification_audit := notification_audit d @
           [[ Integer (int (length (notification_audit d)) + 1),
              Text i,
              Text event,
              Text (isoformat L now),
              (case details of
                 None \<Rightarrow> Null
               | Some kvs \<Rightarrow>
                   if kvs = [] then Null else Text (json_text L (to_json (PDict kvs)))) ]]\<rparr>)
      else (False, d))"

text \<open>
  \<^verbatim>\<open>cleanup_old_notifications\<close>: one \<^verbatim>\<open>UPDATE\<close> that sets column 5 (status) of
  every row whose column 6 (created_at) is below the cutoff text and whose status is
  \<^verbatim>\<open>'SENT'\<close>; the result is the cursor's row count.
\<close>

definition cleanup_where :: "string \<Rightarrow> row \<Rightarrow> bool" where
  "cleanup_where cutoff_date r =
     (sql_less (col r 6) (Text cutoff_date) \<and> col r 5 = Text (status_value SENT))"

definition cleanup_old_notifications ::
  "pylib \<Rightarrow> bool \<Rightarrow> datetime \<Rightarrow> NotificationDatabase \<Rightarrow> int \<Rightarrow> int \<times> NotificationDatabase" where
  "cleanup_old_notifications L io now d days =
     (let cutoff_date = isoformat L (now - timedelta_days days) in
      if io then
        (int (length (filter (cleanup_where cutoff_date) (notifications d))),
         d\<lparr>notifications :=
             map (\<lambda>r. if cleanup_where cutoff_date r then r[5 := Text (status_value ARCHIVED)] else r)
               (notifications d)\<rparr>)
      else (0, d))"

section \<open>SMTPEmailSender\<close>

text \<open>
  What the SMTP conversation inside \<^verbatim>\<open>send_email\<close> does is an input: it completes, or
  it raises an \<^verbatim>\<open>SMTPException\<close>, or it raises another exception. \<^verbatim>\<open>send_email\<close>
  turns the three into its result pair.
\<close>

datatype smtp_result = Accepted | SMTPException string | OtherException string

fun send_email :: "smtp_result \<Rightarrow> bool \<times> string option" where
  "send_email Accepted = (True, None)"
| "send_email (SMTPException e) = (False, Some (''SMTP error: '' @ e))"
| "send_email (OtherException e) = (False, Some (''Email sending error: '' @ e))"

record SMTPEmailSender =
  smtp_host :: string
  smtp_port :: int
  username :: string
  password :: string
  use_tls :: bool
  from_address :: string

section \<open>NotificationWorker\<close>

record WorkerStats =
  sent :: int
  failed :: int
  retried :: int
  processed :: int

text \<open>
  The worker with the database it shares with the facade. Two logs make its effects
  visible: \<open>smtp_log\<close> records every call of \<^verbatim>\<open>send_email\<close> (recipients, subject, body)
  in order; \<open>attempt_log\<close> records, for every call of \<^verbatim>\<open>_process_notification\<close> that
  makes a delivery attempt, the notification as the call leaves it and whether the
  attempt succeeded.
\<close>

record NotificationWorker =
  db :: NotificationDatabase
  email_sender :: "SMTPEmailSender option"
  queue :: "Notification list"
  stats :: WorkerStats
  smtp_log :: "(string list \<times> string \<times> string) list"
  attempt_log :: "(Notification \<times> bool) list"

text \<open>
  The inputs of one call of \<^verbatim>\<open>_process_notification\<close>: the clock reading (every
  \<^verbatim>\<open>datetime.utcnow()\<close> of the call returns it), the outcome of the SMTP conversation,
  and whether the two database calls go through.
\<close>

record env =
  clock :: datetime
  smtp :: smtp_result
  audit_io :: bool
  save_io :: bool

definition worker_send_notification ::
  "NotificationWorker \<Rightarrow> env \<Rightarrow> Notification \<Rightarrow> bool \<times> Notification \<times> NotificationWorker" where
  "worker_send_notification w e n =
     (case email_sender w of
        None \<Rightarrow> (False, n, w)
      | Some s \<Rightarrow>
          (let (success, error) = send_email (smtp e);
               w' = w\<lparr>smtp_log := smtp_log w @ [(recipients n, subject n, body n)]\<rparr>
           in (success, (if \<not> success then n\<lparr>error_message := error\<rparr> else n), w')))"

text \<open>
  \<^verbatim>\<open>min(2 ** retry_count, 60)\<close>, for the counts the worker produces, which are not
  negative.
\<close>

definition backoff_minutes :: "int \<Rightarrow> int" where
  "backoff_minutes rc = min (2 ^ nat rc) 60"

definition process_notification ::
  "pylib \<Rightarrow> NotificationWorker \<Rightarrow> env \<Rightarrow> Notification \<Rightarrow> Notification \<times> NotificationWorker" where
  "process_notification L w e n =
     (if status n = SENT then (n, w)
      else
        (let (success, n1, w1) = worker_send_notification w e n;
             (n2, w2) =
               (if success then
                  (n1\<lparr>status := SENT, sent_at := Some (clock e)\<rparr>,
                   w1\<lparr>stats := (stats w1)\<lparr>sent := sent (stats w1) + 1\<rparr>,
                      db := snd (log_audit_event L (audit_io e) (clock e) (db w1)
                                   (notification_id n1) ''SENT''
                                   (Some [(PStr ''timestamp'', PStr (isoformat L (clock e)))]))\<rparr>)
                else if retry_count n1 < max_retries n1 then
                  (n1\<lparr>retry_count := retry_count n1 + 1,
                      status := RETRYING,
                      next_retry := Some (clock e
                         + timedelta_minutes (backoff_minutes (retry_count n1 + 1)))\<rparr>,
                   w1\<lparr>stats := (stats w1)\<lparr>retried := retried (stats w1) + 1\<rparr>\<rparr>)
                else
                  (n1\<lparr>status := FAILED\<rparr>,
                   w1\<lparr>stats := (stats w1)\<lparr>failed := failed (stats w1) + 1\<rparr>\<rparr>))
         in (n2, w2\<lparr>db := snd (save_notification L (save_io e) (db w2) n2),
                    stats := (stats w2)\<lparr>processed := processed (stats w2) + 1\<rparr>,
                    attempt_log := attempt_log w2 @ [(n2, success)]\<rparr>)))"




text \<open>A delivery succeeds when a sender is configured and the SMTP conversation completes.\<close>

definition delivers :: "NotificationWorker \<Rightarrow> env \<Rightarrow> bool" where
  "delivers w e = (email_sender w \<noteq> None \<and> smtp e = Accepted)"

section \<open>NotificationTemplate\<close>

record NotificationTemplate =
  tname :: string
  tsubject :: string
  tbody :: string
  template_type :: string
  variables :: "string list"

text \<open>
  \<^verbatim>\<open>str.replace(old, new)\<close>: every non-overlapping occurrence of \<open>old\<close>, found from
  left to right, is replaced; with an empty \<open>old\<close> Python puts \<open>new\<close> before every
  character and at the end.
\<close>

function str_replace_scan :: "string \<Rightarrow> string \<Rightarrow> string \<Rightarrow> string" where
  "str_replace_scan old new [] = []"
| "str_replace_scan old new (c # cs) =
     (if old \<noteq> [] \<and> take (length old) (c # cs) = old
      then new @ str_replace_scan old new (drop (length old) (c # cs))
      else c # str_replace_scan old new cs)"
  by pat_completeness auto
termination
  by (relation "measure (\<lambda>(old, new, s). length s)") auto

definition str_replace :: "string \<Rightarrow> string \<Rightarrow> string \<Rightarrow> string" where
  "str_replace old new s =
     (if old = [] then new @ concat (map (\<lambda>c. c # new) s) else str_replace_scan old new s)"

definition placeholder :: "string \<Rightarrow> string" where
  "placeholder var = ''{{'' @ var @ ''}}''"

text \<open>
  \<^verbatim>\<open>render\<close>: one pass over \<^verbatim>\<open>context.items()\<close> in the dict's order, replacing in the
  subject and the body as they stand after the earlier entries. \<open>str\<close> is Python's
  \<^verbatim>\<open>str()\<close> on the values of the context.
\<close>

fun render_items :: "('v \<Rightarrow> string) \<Rightarrow> (string \<times> 'v) list \<Rightarrow> string \<times> string \<Rightarrow> string \<times> string" where
  "render_items str [] (subj, bdy) = (subj, bdy)"
| "render_items str ((var, val) # items) (subj, bdy) =
     render_items str items
       (str_replace (placeholder var) (str val) subj, str_replace (placeholder var) (str val) bdy)"

definition render ::
  "('v \<Rightarrow> string) \<Rightarrow> NotificationTemplate \<Rightarrow> (string \<times> 'v) list \<Rightarrow> string \<times> string" where
  "render str t context = render_items str context (tsubject t, tbody t)"

text \<open>
  The rendering the specification describes, on a template read as a sequence of
  literal text and placeholders: every placeholder whose key the context has becomes
  the stringified value, at once; every other segment stays.
\<close>

datatype segment = Lit string | Var string

fun segment_text :: "segment \<Rightarrow> string" where
  "segment_text (Lit s) = s"
| "segment_text (Var k) = placeholder k"

definition segments_text :: "segment list \<Rightarrow> string" where
  "segments_text segs = concat (map segment_text segs)"

fun substitute :: "('v \<Rightarrow> string) \<Rightarrow> (string \<times> 'v) list \<Rightarrow> segment \<Rightarrow> segment" where
  "substitute str context (Lit s) = Lit s"
| "substitute str context (Var k) =
     (case map_of context k of Some val \<Rightarrow> Lit (str val) | None \<Rightarrow> Var k)"

definition render_spec ::
  "('v \<Rightarrow> string) \<Rightarrow> segment list \<Rightarrow> segment list \<Rightarrow> (string \<times> 'v) list \<Rightarrow> string \<times> string" where
  "render_spec str subj_segs body_segs context =
     (segments_text (map (substitute str context) subj_segs),
      segments_text (map (substitute str context) body_segs))"

text \<open>
  Templates and contexts on which the two renderings agree: literal text has no opening
  brace, a placeholder's name has no brace at all, a key of the context has no closing
  brace and a stringified value no opening brace.
\<close>

definition brace_free :: "string \<Rightarrow> bool" where
  "brace_free s = (CHR ''{'' \<notin> set s \<and> CHR ''}'' \<notin> set s)"

fun plain_segment :: "segment \<Rightarrow> bool" where
  "plain_segment (Lit s) = (CHR ''{'' \<notin> set s)"
| "plain_segment (Var k) = brace_free k"

definition plain_context :: "('v \<Rightarrow> string) \<Rightarrow> (string \<times> 'v) list \<Rightarrow> bool" where
  "plain_context str context =
     list_all (\<lambda>(k, val). CHR ''}'' \<notin> set k \<and> CHR ''{'' \<notin> set (str val)) context"

text \<open>One entry of the context applied to a segment.\<close>

fun replace_segment :: "string \<Rightarrow> string \<Rightarrow> segment \<Rightarrow> segment" where
  "replace_segment k v (Lit s) = Lit s"
| "replace_segment k v (Var k') = (if k' = k then Lit v else Var k')"

section \<open>AlertRule and AlertRuleManager\<close>

record AlertRule =
  name :: string
  rule_type :: AlertRuleType
  condition :: "pydict \<Rightarrow> bool outcome"
  notification_level :: NotificationLevel
  rule_recipients :: "string list"
  enabled :: bool
  description :: string

definition matches :: "AlertRule \<Rightarrow> pydict \<Rightarrow> bool outcome" where
  "matches r event_data = try_except (condition r event_data) (\<lambda>e. Returns False)"

text \<open>
  The manager's \<^verbatim>\<open>rules\<close> dict in its iteration order: a new name goes to the end, a
  name already present keeps its place and gets the new rule.
\<close>

type_synonym rules = "(string \<times> AlertRule) list"

definition register_rule :: "rules \<Rightarrow> AlertRule \<Rightarrow> rules" where
  "register_rule rs r = AList.update (name r) r rs"

definition get_enabled_rules :: "rules \<Rightarrow> AlertRule list" where
  "get_enabled_rules rs = filter enabled (map snd rs)"

fun evaluate_rules :: "AlertRule list \<Rightarrow> pydict \<Rightarrow> AlertRule list \<Rightarrow> AlertRule list outcome" where
  "evaluate_rules [] event_data matched_rules = Returns matched_rules"
| "evaluate_rules (r # rs) event_data matched_rules =
     and_then (matches r event_data)
       (\<lambda>m. evaluate_rules rs event_data (if m then matched_rules @ [r] else matched_rules))"

definition evaluate_event :: "rules \<Rightarrow> pydict \<Rightarrow> AlertRule list outcome" where
  "evaluate_event rs event_data = evaluate_rules (get_enabled_rules rs) event_data []"

section \<open>NotificationSystem\<close>

text \<open>
  The facade. Its database is the worker's (\<^verbatim>\<open>self.db\<close> and \<^verbatim>\<open>self.worker.db\<close> are
  one object), so the state keeps it once, inside the worker.
\<close>

record NotificationSystem =
  worker :: NotificationWorker
  templates :: "(string \<times> NotificationTemplate) list"
  rule_manager :: rules

text \<open>
  The inputs of one call of \<^verbatim>\<open>send_notification\<close>: the string that
  \<^verbatim>\<open>generate_notification_id\<close> builds from the clock and a random number, the clock
  reading taken for \<^verbatim>\<open>created_at\<close>, and whether the save goes through.
\<close>

record send_env =
  generated_id :: string
  utcnow :: datetime
  db_io :: bool

definition send_notification ::
  "pylib \<Rightarrow> NotificationSystem \<Rightarrow> send_env \<Rightarrow> NotificationLevel \<Rightarrow> string list \<Rightarrow> string \<Rightarrow> string
     \<Rightarrow> pydict option \<Rightarrow> string \<times> NotificationSystem" where
  "send_notification L s e lv rcpts subj bdy md =
     (let notification =
            new_notification (generated_id e) lv subj bdy rcpts
              (case md of None \<Rightarrow> [] | Some m \<Rightarrow> m) (utcnow e);
          w = worker s;
          w1 = w\<lparr>db := snd (save_notification L (db_io e) (db w) notification)\<rparr>;
          w2 = w1\<lparr>queue := queue w1 @ [notification]\<rparr>
      in (notification_id notification, s\<lparr>worker := w2\<rparr>))"

text \<open>
  The body that \<^verbatim>\<open>handle_event\<close> formats for a rule. The \<^verbatim>\<open>json.dumps\<close> inside the
  f-string raises \<^verbatim>\<open>TypeError\<close> when the event data hold a value it cannot encode;
  \<open>alert_text\<close> is the body when it returns.
\<close>

definition alert_text :: "pylib \<Rightarrow> AlertRule \<Rightarrow> pydict \<Rightarrow> string" where
  "alert_text L r event_data =
     ''Alert rule '' @ [CHR 0x27] @ name r @ [CHR 0x27] @ '' triggered:'' @ [CHR 0x0A, CHR 0x0A]
       @ json_text_indent2 L (to_json (PDict event_data))"

definition alert_body :: "pylib \<Rightarrow> AlertRule \<Rightarrow> pydict \<Rightarrow> string outcome" where
  "alert_body L r event_data =
     and_then (json_dumps_indent2 L (PDict event_data))
       (\<lambda>dumped. Returns (''Alert rule '' @ [CHR 0x27] @ name r @ [CHR 0x27] @ '' triggered:''
                            @ [CHR 0x0A, CHR 0x0A] @ dumped))"

text \<open>
  The loop of \<^verbatim>\<open>handle_event\<close> over the matched rules; the \<open>k\<close>-th call of
  \<^verbatim>\<open>send_notification\<close> gets the inputs \<open>envs k\<close>. The arguments of the call are
  computed first, so an exception from the body leaves the loop before the call, with
  the system as the earlier passes left it. Nothing in \<^verbatim>\<open>handle_event\<close> catches it.
\<close>

fun send_alerts ::
  "pylib \<Rightarrow> (nat \<Rightarrow> send_env) \<Rightarrow> nat \<Rightarrow> pydict \<Rightarrow> AlertRule list \<Rightarrow> string list \<Rightarrow> NotificationSystem
     \<Rightarrow> string list outcome \<times> NotificationSystem" where
  "send_alerts L envs k event_data [] notification_ids s = (Returns notification_ids, s)"
| "send_alerts L envs k event_data (r # rs) notification_ids s =
     (case alert_body L r event_data of
        Raises err \<Rightarrow> (Raises err, s)
      | Returns bdy \<Rightarrow>
          (let (i, s') =
                 send_notification L s (envs k) (notification_level r) (rule_recipients r)
                   (''Alert: '' @ name r) bdy
                   (Some [(PStr ''rule_name'', PStr (name r)),
                          (PStr ''rule_type'', PStr (rule_type_value (rule_type r)))])
           in send_alerts L envs (Suc k) event_data rs (notification_ids @ [i]) s'))"

definition handle_event ::
  "pylib \<Rightarrow> (nat \<Rightarrow> send_env) \<Rightarrow> NotificationSystem \<Rightarrow> pydict
     \<Rightarrow> string list outcome \<times> NotificationSystem" where
  "handle_event L envs s event_data =
     (case evaluate_event (rule_manager s) event_data of
        Raises err \<Rightarrow> (Raises err, s)
      | Returns matched_rules \<Rightarrow> send_alerts L envs 0 event_data matched_rules [] s)"

text \<open>
  The notification that the \<open>k\<close>-th pass of the loop of \<^verbatim>\<open>handle_event\<close> builds for
  the rule \<open>r\<close>: the arguments of its call of \<^verbatim>\<open>send_notification\<close>, put through the
  constructor.
\<close>

definition alert_notification :: "pylib \<Rightarrow> (nat \<Rightarrow> send_env) \<Rightarrow> pydict \<Rightarrow> nat \<times> AlertRule \<Rightarrow> Notification" where
  "alert_notification L envs ev = (\<lambda>(k, r).
     new_notification (generated_id (envs k)) (notification_level r) (''Alert: '' @ name r)
       (alert_text L r ev) (rule_recipients r)
       [(PStr ''rule_name'', PStr (name r)), (PStr ''rule_type'', PStr (rule_type_value (rule_type r)))]
       (utcnow (envs k)))"

section \<open>Runs of the system\<close>

text \<open>
  The system as its constructor leaves it: empty tables, an empty queue, counters at
  zero. A run is a sequence of calls of \<^verbatim>\<open>send_notification\<close> (which
  \<^verbatim>\<open>send_from_template\<close> and \<^verbatim>\<open>handle_event\<close> call to create their notifications) and
  of passes of the worker's loop, in any order.
\<close>

definition new_system ::
  "SMTPEmailSender option \<Rightarrow> (string \<times> NotificationTemplate) list \<Rightarrow> rules \<Rightarrow> NotificationSystem" where
  "new_system sender ts rs =
     \<lparr> worker =
         \<lparr> db = \<lparr> notifications = [], notification_audit = [] \<rparr>,
           email_sender = sender,
           queue = [],
           stats = \<lparr> sent = 0, failed = 0, retried = 0, processed = 0 \<rparr>,
           smtp_log = [],
           attempt_log = [] \<rparr>,
       templates = ts,
       rule_manager = rs \<rparr>"







section \<open>Sample data\<close>

text \<open>
  A small instance of the library's text functions, defined on the handful of values
  the examples use. Times are microseconds since 1970-01-01; the sample clock starts at
  2025-01-01T00:00:00.
\<close>

definition sample_isoformat :: "datetime \<Rightarrow> string" where
  "sample_isoformat t =
     (if t = 1730419200000000 then ''2024-11-01T00:00:00''
      else if t = 1733097600000000 then ''2024-12-02T00:00:00''
      else if t = 1735084800000000 then ''2024-12-25T00:00:00''
      else if t = 1735689600000000 then ''2025-01-01T00:00:00''
      else if t = 1735689601000000 then ''2025-01-01T00:00:01''
      else if t = 1735689602000000 then ''2025-01-01T00:00:02''
      else if t = 1735689608000000 then ''2025-01-01T00:00:08''
      else if t = 1735689720000000 then ''2025-01-01T00:02:00''
      else if t = 1735689722000000 then ''2025-01-01T00:02:02''
      else if t = 1735689728000000 then ''2025-01-01T00:02:08''
      else if t = 1735689780000000 then ''2025-01-01T00:03:00''
      else if t = 1735690020000000 then ''2025-01-01T00:07:00''
      else if t = 1735690560000000 then ''2025-01-01T00:16:00''
      else ''1970-01-01T00:00:00'')"

definition sample_fromisoformat :: "string \<Rightarrow> datetime option" where
  "sample_fromisoformat s =
     (if s = ''2024-11-01T00:00:00'' then Some 1730419200000000
      else if s = ''2024-12-02T00:00:00'' then Some 1733097600000000
      else if s = ''2024-12-25T00:00:00'' then Some 1735084800000000
      else if s = ''2025-01-01T00:00:00'' then Some 1735689600000000
      else if s = ''2025-01-01T00:00:01'' then Some 1735689601000000
      else if s = ''2025-01-01T00:00:02'' then Some 1735689602000000
      else if s = ''2025-01-01T00:00:08'' then Some 1735689608000000
      else if s = ''2025-01-01T00:02:00'' then Some 1735689720000000
      else if s = ''2025-01-01T00:02:02'' then Some 1735689722000000
      else if s = ''2025-01-01T00:02:08'' then Some 1735689728000000
      else if s = ''2025-01-01T00:03:00'' then Some 1735689780000000
      else if s = ''2025-01-01T00:07:00'' then Some 1735690020000000
      else if s = ''2025-01-01T00:16:00'' then Some 1735690560000000
      else if s = ''1970-01-01T00:00:00'' then Some 0
      else None)"

definition sample_json_text :: "json \<Rightarrow> string" where
  "sample_json_text j =
     (if j = JArr [JStr ''admin@example.com'']
        then ''[\"admin@example.com\"]''
      else if j = JArr [JStr ''devops@example.com'']
        then ''[\"devops@example.com\"]''
      else if j = JObj [(''rule_name'', JStr ''migration_failure''), (''rule_type'', JStr ''EVENT'')]
        then ''{\"rule_name\": \"migration_failure\", \"rule_type\": \"EVENT\"}''
      else if j = JObj [(''rule_name'', JStr ''high_memory_usage''), (''rule_type'', JStr ''THRESHOLD'')]
        then ''{\"rule_name\": \"high_memory_usage\", \"rule_type\": \"THRESHOLD\"}''
      else if j = JObj [(''ids'', JArr [JInt 1, JInt 2])]
        then ''{\"ids\": [1, 2]}''
      else if j = JObj [(''1'', JStr ''a'')]
        then ''{\"1\": \"a\"}''
      else if j = JObj []
        then ''{}''
      else ''null'')"

definition sample_json_parse :: "string \<Rightarrow> json option" where
  "sample_json_parse s =
     (if s = ''[\"admin@example.com\"]''
        then Some (JArr [JStr ''admin@example.com''])
      else if s = ''[\"devops@example.com\"]''
        then Some (JArr [JStr ''devops@example.com''])
      else if s = ''{\"rule_name\": \"migration_failure\", \"rule_type\": \"EVENT\"}''
        then Some (JObj [(''rule_name'', JStr ''migration_failure''), (''rule_type'', JStr ''EVENT'')])
      else if s = ''{\"rule_name\": \"high_memory_usage\", \"rule_type\": \"THRESHOLD\"}''
        then Some (JObj [(''rule_name'', JStr ''high_memory_usage''), (''rule_type'', JStr ''THRESHOLD'')])
      else if s = ''{\"ids\": [1, 2]}''
        then Some (JObj [(''ids'', JArr [JInt 1, JInt 2])])
      else if s = ''{\"1\": \"a\"}''
        then Some (JObj [(''1'', JStr ''a'')])
      else if s = ''{}''
        then Some (JObj [])
      else if s = ''null'' then Some JNull
      else None)"

definition sample_lib :: pylib where
  "sample_lib =
     \<lparr> isoformat = sample_isoformat, fromisoformat = sample_fromisoformat,
       json_text = sample_json_text, json_text_indent2 = sample_json_text,
       json_parse = sample_json_parse \<rparr>"

definition empty_db :: NotificationDatabase where
  "empty_db = \<lparr> notifications = [], notification_audit = [] \<rparr>"

text \<open>
  The sender of the module's example section, and the inputs of processing steps and of
  passes of the loop in which every delivery fails, or every delivery is accepted, at
  one clock reading.
\<close>

definition sample_sender :: SMTPEmailSender where
  "sample_sender =
     \<lparr> smtp_host = ''smtp.gmail.com'', smtp_port = 587, username = ''your-email@gmail.com'',
       password = ''your-password'', use_tls = True, from_address = ''migrations@example.com'' \<rparr>"













text \<open>
  The two rules of the module's example section, a rule whose condition raises (it
  reads a key the event lacks), an event that the two example rules match, and the
  inputs of the calls of \<^verbatim>\<open>send_notification\<close>.
\<close>

definition migration_failure_condition :: "pydict \<Rightarrow> bool outcome" where
  "migration_failure_condition event =
     Returns (map_of event (PStr ''event_type'') = Some (PStr ''migration_failed''))"

definition high_memory_condition :: "pydict \<Rightarrow> bool outcome" where
  "high_memory_condition event =
     (if map_of event (PStr ''metric'') = Some (PStr ''memory'') then
        (case map_of event (PStr ''value'') of
           None \<Rightarrow> Returns False
         | Some (PInt v) \<Rightarrow> Returns (85 < v)
         | Some _ \<Rightarrow> Raises ''ValueError'')
      else Returns False)"

definition missing_key_condition :: "pydict \<Rightarrow> bool outcome" where
  "missing_key_condition event =
     (case map_of event (PStr ''threshold'') of
        None \<Rightarrow> Raises ''KeyError''
      | Some v \<Rightarrow> Returns (v = PInt 0))"

definition migration_error_rule :: AlertRule where
  "migration_error_rule =
     \<lparr> name = ''migration_failure'', rule_type = EVENT,
       condition = migration_failure_condition, notification_level = CRITICAL,
       rule_recipients = [''admin@example.com''], enabled = True,
       description = ''Alert when migration operation fails'' \<rparr>"

definition broken_rule :: AlertRule where
  "broken_rule =
     \<lparr> name = ''threshold_check'', rule_type = THRESHOLD,
       condition = missing_key_condition, notification_level = ERROR,
       rule_recipients = [''oncall@example.com''], enabled = True,
       description = [] \<rparr>"

definition high_memory_rule :: AlertRule where
  "high_memory_rule =
     \<lparr> name = ''high_memory_usage'', rule_type = THRESHOLD,
       condition = high_memory_condition, notification_level = WARNING,
       rule_recipients = [''devops@example.com''], enabled = True,
       description = ''Alert when memory usage exceeds 85%'' \<rparr>"

definition sample_rules :: rules where
  "sample_rules =
     register_rule (register_rule (register_rule [] migration_error_rule) broken_rule)
       high_memory_rule"

definition sample_event :: pydict where
  "sample_event =
     [(PStr ''event_type'', PStr ''migration_failed''), (PStr ''metric'', PStr ''memory''),
      (PStr ''value'', PInt 91)]"

definition quiet_event :: pydict where
  "quiet_event = [(PStr ''event_type'', PStr ''migration_started'')]"

definition sample_system :: NotificationSystem where
  "sample_system = new_system (Some sample_sender) [] sample_rules"

definition sample_envs :: "nat \<Rightarrow> send_env" where
  "sample_envs k =
     (if k = 0 then
        \<lparr> generated_id = ''notif_1735689600_0a1b2c3d'', utcnow = 1735689600000000, db_io = True \<rparr>
      else
        \<lparr> generated_id = ''notif_1735689600_9f8e7d6c'', utcnow = 1735689600000000, db_io = True \<rparr>)"

text \<open>
  An event whose data hold a \<^verbatim>\<open>datetime\<close>, inputs that generate the same id twice, and
  inputs under which the saves fail.
\<close>

definition dated_event :: pydict where
  "dated_event =
     [(PStr ''event_type'', PStr ''migration_failed''), (PStr ''occurred_at'', PObject ''datetime'')]"

definition colliding_envs :: "nat \<Rightarrow> send_env" where
  "colliding_envs k =
     \<lparr> generated_id = ''notif_1735689600_0a1b2c3d'', utcnow = 1735689600000000, db_io = True \<rparr>"

definition failing_save_envs :: "nat \<Rightarrow> send_env" where
  "failing_save_envs k = (sample_envs k)\<lparr> db_io := False \<rparr>"

text \<open>
  Three stored notifications for the clean-up: one sent two months before the sample
  clock reading 2025-01-01, one sent a week before it, one that failed two months
  before it; and a notification with every optional field set.
\<close>

definition old_sent :: Notification where
  "old_sent =
     (new_notification ''notif_1730419200_00000001'' INFO ''Migration Operation Started - m1''
        ''started'' [''admin@example.com''] [] 1730419200000000)
     \<lparr> status := SENT, sent_at := Some 1730419200000000 \<rparr>"

definition recent_sent :: Notification where
  "recent_sent =
     (new_notification ''notif_1735084800_00000002'' INFO ''Migration Operation Completed - m1''
        ''completed'' [''admin@example.com''] [] 1735084800000000)
     \<lparr> status := SENT, sent_at := Some 1735084800000000 \<rparr>"

definition old_failed :: Notification where
  "old_failed =
     (new_notification ''notif_1730419200_00000003'' ERROR ''Migration Operation Failed - m0''
        ''failed'' [''admin@example.com''] [] 1730419200000000)
     \<lparr> status := FAILED, retry_count := 3, next_retry := Some 1730419200000000,
       error_message := Some ''SMTP error: Connection refused'' \<rparr>"

definition retried_notification :: Notification where
  "retried_notification =
     (new_notification ''notif_1735689600_0a1b2c3d'' CRITICAL ''Alert: migration_failure''
        ''Alert rule triggered'' [''admin@example.com'']
        [(PStr ''rule_name'', PStr ''migration_failure''), (PStr ''rule_type'', PStr ''EVENT'')]
        1735689600000000)
     \<lparr> status := SENT, sent_at := Some 1735689720000000, retry_count := 1,
       next_retry := Some 1735689720000000,
       error_message := Some ''SMTP error: Connection refused'' \<rparr>"

text \<open>
  The same notification with metadata that hold a tuple, and with metadata whose key is
  an integer.
\<close>

definition tuple_notification :: Notification where
  "tuple_notification =
     retried_notification\<lparr> metadata := [(PStr ''ids'', PTuple [PInt 1, PInt 2])] \<rparr>"

definition int_key_notification :: Notification where
  "int_key_notification = retried_notification\<lparr> metadata := [(PInt 1, PStr ''a'')] \<rparr>"

text \<open>
  Two templates: the one of the specification's example, and one whose body is a single
  placeholder.
\<close>

definition status_template :: NotificationTemplate where
  "status_template =
     \<lparr> tname = ''status_report'', tsubject = ''Status for {{name}}'',
       tbody = ''Hi {{name}}, status {{status}}'', template_type = ''html'',
       variables = [''name'', ''status''] \<rparr>"

definition echo_template :: NotificationTemplate where
  "echo_template =
     \<lparr> tname = ''echo'', tsubject = ''Echo'', tbody = ''{{a}}'', template_type = ''html'',
       variables = [''a''] \<rparr>"


section \<open>Stored values\<close>

lemma status_value_inj: "(status_value a = status_value b) = (a = b)"
  by (cases a; cases b) simp_all

section \<open>One step of the worker\<close>

lemma send_success: "fst (worker_send_notification w e n) = delivers w e"
  by (cases "smtp e") (auto simp: worker_send_notification_def delivers_def split: option.splits)

lemma send_worker:
  "email_sender (snd (snd (worker_send_notification w e n))) = email_sender w"
  "db (snd (snd (worker_send_notification w e n))) = db w"
  "queue (snd (snd (worker_send_notification w e n))) = queue w"
  "attempt_log (snd (snd (worker_send_notification w e n))) = attempt_log w"
  by (auto simp: worker_send_notification_def split: option.splits prod.splits)

lemma send_fields:
  "status (fst (snd (worker_send_notification w e n))) = status n"
  "retry_count (fst (snd (worker_send_notification w e n))) = retry_count n"
  "max_retries (fst (snd (worker_send_notification w e n))) = max_retries n"
  "next_retry (fst (snd (worker_send_notification w e n))) = next_retry n"
  "notification_id (fst (snd (worker_send_notification w e n))) = notification_id n"
  by (auto simp: worker_send_notification_def split: option.splits prod.splits)








lemma process_fail_audit:
  assumes "\<not> delivers w e" "status n \<noteq> SENT"
  shows "notification_audit (db (snd (process_notification L w e n))) = notification_audit (db w)"
  using assms send_worker[of w e n] send_success[of w e n]
  by (auto simp: process_notification_def save_notification_def Let_def split: prod.splits)

lemma process_success_audit:
  assumes "delivers w e" "status n \<noteq> SENT" "audit_io e"
  shows "map (\<lambda>r. (col r 1, col r 2)) (notification_audit (db (snd (process_notification L w e n))))
         = map (\<lambda>r. (col r 1, col r 2)) (notification_audit (db w))
           @ [(Text (notification_id n), Text ''SENT'')]"
  using assms send_worker[of w e n] send_success[of w e n] send_fields[of w e n]
  by (auto simp: process_notification_def save_notification_def log_audit_event_def col_def Let_def
      split: prod.splits)

lemma processing_unsent_calls_sender:
  assumes "status n \<noteq> SENT" "email_sender w \<noteq> None"
  shows "smtp_log (snd (process_notification L w e n))
           = smtp_log w @ [(recipients n, subject n, body n)]"
  using assms
  by (auto simp: process_notification_def worker_send_notification_def Let_def
      split: prod.splits option.splits)

section \<open>What every run keeps true\<close>















section \<open>Retries\<close>





section \<open>Audit trail\<close>


section \<open>The retry time\<close>




section \<open>Notifications already sent\<close>


section \<open>Rule evaluation\<close>

lemma matches_Returns:
  "matches r ev = Returns (condition r ev = Returns True)"
  by (cases "condition r ev") (auto simp: matches_def try_except_def)

lemma evaluate_rules_filter:
  "evaluate_rules rs ev acc = Returns (acc @ filter (\<lambda>r. condition r ev = Returns True) rs)"
  by (induction rs arbitrary: acc) (simp_all add: matches_Returns and_then_def)


text \<open>
  The registry's order is the order of registration: a rule with a new name goes to the
  end, so rules registered under distinct names are held, and iterated, in the order of
  their registration.
\<close>

lemma register_rule_new:
  "name r \<notin> fst ` set rs \<Longrightarrow> register_rule rs r = rs @ [(name r, r)]"
  by (induction rs) (auto simp: register_rule_def)

lemma registration_order:
  "distinct (map name new_rules) \<Longrightarrow>
     map snd (foldl register_rule [] new_rules) = new_rules
     \<and> map fst (foldl register_rule [] new_rules) = map name new_rules"
proof (induction new_rules rule: rev_induct)
  case Nil
  then show ?case by simp
next
  case (snoc r rs)
  then have ih: "map snd (foldl register_rule [] rs) = rs"
    "map fst (foldl register_rule [] rs) = map name rs"
    by simp_all
  have "name r \<notin> set (map fst (foldl register_rule [] rs))"
    using snoc.prems ih by simp
  then have "name r \<notin> fst ` set (foldl register_rule [] rs)" by simp
  then show ?case using ih by (simp add: register_rule_new)
qed

text \<open>
  C8. For every registry and every event, \<^verbatim>\<open>evaluate_event\<close> returns, and what it
  returns is the list of the enabled rules, in the registry's order, whose condition
  returns \<^verbatim>\<open>True\<close>. A rule whose condition raises is left out like one whose condition
  returns \<^verbatim>\<open>False\<close>: the result is never \<open>Raises\<close>, and the rules after it are
  evaluated all the same.
\<close>

theorem evaluate_event_returns_matching_enabled_rules:
  "evaluate_event rs event_data =
     Returns (filter (\<lambda>r. condition r event_data = Returns True) (filter enabled (map snd rs)))"
  by (simp add: evaluate_event_def get_enabled_rules_def evaluate_rules_filter)

theorem evaluate_event_returns_matching_enabled_rules_witness:
  "map fst sample_rules = [''migration_failure'', ''threshold_check'', ''high_memory_usage'']
   \<and> condition broken_rule sample_event = Raises ''KeyError''
   \<and> evaluate_event sample_rules sample_event = Returns [migration_error_rule, high_memory_rule]"
  using evaluate_event_returns_matching_enabled_rules [of sample_rules sample_event]
  by (simp add: sample_rules_def register_rule_def migration_error_rule_def broken_rule_def
      high_memory_rule_def sample_event_def migration_failure_condition_def
      high_memory_condition_def missing_key_condition_def)


section \<open>The clean-up\<close>

lemma cleanup_where_row:
  "cleanup_where c (notification_row L n) = (isoformat L (created_at n) < c \<and> status n = SENT)"
  using status_value_inj[of "status n" SENT]
  by (simp add: cleanup_where_def notification_row_def col_def)

lemma archive_row:
  "(notification_row L n)[5 := Text ''ARCHIVED''] = notification_row L (n\<lparr>status := ARCHIVED\<rparr>)"
  by (simp add: notification_row_def)

text \<open>
  C6. For every \<^verbatim>\<open>days\<close>, on a table that holds the rows of the notifications \<open>ns\<close>,
  the clean-up (when its statement goes through) turns exactly the notifications that are
  \<^verbatim>\<open>SENT\<close> and were created before the cutoff \<open>now - days\<close> into \<^verbatim>\<open>ARCHIVED\<close> ones,
  changes nothing else, and returns their number; a notification with any other status,
  \<^verbatim>\<open>FAILED\<close> included, keeps its row whatever its age. The \<^verbatim>\<open>UPDATE\<close> compares the
  stored ISO text with the cutoff's ISO text, so the statement assumes that on these
  values the order of the texts is the order of the times.
\<close>

theorem cleanup_archives_exactly_old_sent:
  assumes "notifications d = map (notification_row L) ns"
    and "\<forall>n \<in> set ns. (isoformat L (created_at n) < isoformat L (now - timedelta_days days))
                         = (created_at n < now - timedelta_days days)"
  shows "cleanup_old_notifications L True now d days =
           (int (length (filter (\<lambda>n. status n = SENT \<and> created_at n < now - timedelta_days days) ns)),
            d\<lparr>notifications := map (notification_row L)
                 (map (\<lambda>n. if status n = SENT \<and> created_at n < now - timedelta_days days
                           then n\<lparr>status := ARCHIVED\<rparr> else n) ns)\<rparr>)"
proof -
  let ?c = "isoformat L (now - timedelta_days days)"
  have w: "\<forall>n \<in> set ns. cleanup_where ?c (notification_row L n)
             = (status n = SENT \<and> created_at n < now - timedelta_days days)"
    using assms(2) by (auto simp: cleanup_where_row)
  have count: "length (filter (cleanup_where ?c) (map (notification_row L) ns))
      = length (filter (\<lambda>n. status n = SENT \<and> created_at n < now - timedelta_days days) ns)"
    using w by (simp add: filter_map comp_def cong: filter_cong)
  have upd: "map (\<lambda>r. if cleanup_where ?c r then r[5 := Text (status_value ARCHIVED)] else r)
               (map (notification_row L) ns)
      = map (notification_row L)
          (map (\<lambda>n. if status n = SENT \<and> created_at n < now - timedelta_days days
                    then n\<lparr>status := ARCHIVED\<rparr> else n) ns)"
    using w by (auto simp: archive_row)
  show ?thesis
    using count upd by (simp add: cleanup_old_notifications_def assms(1) Let_def)
qed

theorem cleanup_archives_exactly_old_sent_witness:
  "(isoformat sample_lib (created_at old_sent)
      < isoformat sample_lib (1735689600000000 - timedelta_days 30))
     = (created_at old_sent < 1735689600000000 - timedelta_days 30)
   \<and> (isoformat sample_lib (created_at recent_sent)
      < isoformat sample_lib (1735689600000000 - timedelta_days 30))
     = (created_at recent_sent < 1735689600000000 - timedelta_days 30)
   \<and> (isoformat sample_lib (created_at old_failed)
      < isoformat sample_lib (1735689600000000 - timedelta_days 30))
     = (created_at old_failed < 1735689600000000 - timedelta_days 30)
   \<and> created_at old_failed < 1735689600000000 - timedelta_days 30
   \<and> cleanup_old_notifications sample_lib True 1735689600000000
        \<lparr> notifications = map (notification_row sample_lib) [old_sent, recent_sent, old_failed],
          notification_audit = [] \<rparr> 30
      = (1, \<lparr> notifications = map (notification_row sample_lib)
                 [old_sent\<lparr>status := ARCHIVED\<rparr>, recent_sent, old_failed],
               notification_audit = [] \<rparr>)"
proof -
  let ?d = "\<lparr> notifications = map (notification_row sample_lib) [old_sent, recent_sent, old_failed],
             notification_audit = [] \<rparr>"
  have h1: "notifications ?d = map (notification_row sample_lib) [old_sent, recent_sent, old_failed]"
    by simp
  have v: "created_at old_sent = 1730419200000000" "created_at recent_sent = 1735084800000000"
    "created_at old_failed = 1730419200000000" "status old_sent = SENT" "status recent_sent = SENT"
    "status old_failed = FAILED"
    by (simp_all add: old_sent_def recent_sent_def old_failed_def new_notification_def)
  have h2: "\<forall>n \<in> set [old_sent, recent_sent, old_failed].
      (isoformat sample_lib (created_at n) < isoformat sample_lib (1735689600000000 - timedelta_days 30))
        = (created_at n < 1735689600000000 - timedelta_days 30)"
    by (simp add: v sample_lib_def sample_isoformat_def timedelta_days_def)
  show ?thesis
    using h2 cleanup_archives_exactly_old_sent [OF h1 h2]
    by (simp add: v timedelta_days_def)
qed


section \<open>Rendering templates\<close>

lemma scan_skip:
  "c \<noteq> CHR ''{'' \<Longrightarrow>
     str_replace_scan (placeholder k) v (c # cs) = c # str_replace_scan (placeholder k) v cs"
  by (auto simp: placeholder_def)

lemma scan_literal:
  "CHR ''{'' \<notin> set s \<Longrightarrow>
     str_replace_scan (placeholder k) v (s @ t) = s @ str_replace_scan (placeholder k) v t"
proof (induction s)
  case Nil
  then show ?case by simp
next
  case (Cons c s)
  then have "c \<noteq> CHR ''{''" by auto
  then show ?case using Cons by (simp add: scan_skip del: str_replace_scan.simps)
qed

lemma scan_hit:
  "p \<noteq> [] \<Longrightarrow> str_replace_scan p v (p @ t) = v @ str_replace_scan p v t"
  by (cases p) simp_all

lemma closing_braces_prefix:
  assumes "CHR ''}'' \<notin> set k" "CHR ''}'' \<notin> set k'"
    and "take (length k + 2) (k' @ ''}}'' @ t) = k @ ''}}''"
  shows "k = k'"
  using assms
proof (induction k arbitrary: k')
  case Nil
  then show ?case by (cases k') auto
next
  case (Cons a k)
  show ?case
  proof (cases k')
    case Nil
    then show ?thesis using Cons.prems by auto
  next
    case (Cons b k2)
    then show ?thesis using Cons.prems Cons.IH[of k2] by auto
  qed
qed

lemma scan_miss:
  assumes "brace_free k'" "CHR ''}'' \<notin> set k" "k \<noteq> k'"
  shows "str_replace_scan (placeholder k) v (placeholder k' @ t)
           = placeholder k' @ str_replace_scan (placeholder k) v t"
proof -
  let ?rest = "k' @ ''}}'' @ t"
  have no0: "take (length (placeholder k)) (CHR ''{'' # CHR ''{'' # ?rest) \<noteq> placeholder k"
  proof
    assume "take (length (placeholder k)) (CHR ''{'' # CHR ''{'' # ?rest) = placeholder k"
    then have "take (length k + 2) ?rest = k @ ''}}''"
      by (simp add: placeholder_def)
    then have "k = k'"
      using closing_braces_prefix[of k k' t] assms(1,2) by (simp add: brace_free_def)
    then show False using assms(3) by simp
  qed
  have no1: "take (length (placeholder k)) (CHR ''{'' # ?rest) \<noteq> placeholder k"
    using assms(1) by (cases k') (auto simp: placeholder_def brace_free_def)
  have s0: "str_replace_scan (placeholder k) v (CHR ''{'' # CHR ''{'' # ?rest)
      = CHR ''{'' # str_replace_scan (placeholder k) v (CHR ''{'' # ?rest)"
    using no0 by simp
  have s1: "str_replace_scan (placeholder k) v (CHR ''{'' # ?rest)
      = CHR ''{'' # str_replace_scan (placeholder k) v ?rest"
    using no1 by simp
  have "CHR ''{'' \<notin> set (k' @ ''}}'')"
    using assms(1) by (simp add: brace_free_def)
  then have s2: "str_replace_scan (placeholder k) v ((k' @ ''}}'') @ t)
      = (k' @ ''}}'') @ str_replace_scan (placeholder k) v t"
    by (rule scan_literal)
  show ?thesis using s0 s1 s2 by (simp add: placeholder_def del: str_replace_scan.simps)
qed

lemma replace_segments:
  assumes "list_all plain_segment segs" "CHR ''}'' \<notin> set k"
  shows "str_replace (placeholder k) v (segments_text segs)
           = segments_text (map (replace_segment k v) segs)"
proof -
  have ne: "placeholder k \<noteq> []" by (simp add: placeholder_def)
  have "str_replace_scan (placeholder k) v (segments_text segs)
           = segments_text (map (replace_segment k v) segs)"
    using assms(1)
  proof (induction segs)
    case Nil
    then show ?case by (simp add: segments_text_def)
  next
    case (Cons seg segs)
    then have ih: "str_replace_scan (placeholder k) v (segments_text segs)
           = segments_text (map (replace_segment k v) segs)" by simp
    show ?case
    proof (cases seg)
      case (Lit s)
      then have "CHR ''{'' \<notin> set s" using Cons.prems by simp
      then show ?thesis using Lit ih scan_literal[of s k v "segments_text segs"]
        by (simp add: segments_text_def del: str_replace_scan.simps)
    next
      case (Var k')
      then have bf: "brace_free k'" using Cons.prems by simp
      show ?thesis
      proof (cases "k' = k")
        case True
        then show ?thesis using Var ih scan_hit[OF ne, of v "segments_text segs"]
          by (simp add: segments_text_def del: str_replace_scan.simps)
      next
        case False
        then have "k \<noteq> k'" by simp
        then show ?thesis
          using Var ih scan_miss[OF bf assms(2), of v "segments_text segs"] False
          by (simp add: segments_text_def del: str_replace_scan.simps)
      qed
    qed
  qed
  then show ?thesis using ne by (simp add: str_replace_def)
qed

lemma replace_segment_plain:
  "plain_segment seg \<Longrightarrow> CHR ''{'' \<notin> set v \<Longrightarrow> plain_segment (replace_segment k v seg)"
  by (cases seg) simp_all

lemma substitute_step:
  "substitute str items (replace_segment k (str val) seg) = substitute str ((k, val) # items) seg"
  by (cases seg) simp_all

lemma render_items_segments:
  assumes "list_all plain_segment ss" "list_all plain_segment bs" "plain_context str items"
  shows "render_items str items (segments_text ss, segments_text bs)
           = (segments_text (map (substitute str items) ss),
              segments_text (map (substitute str items) bs))"
  using assms
proof (induction items arbitrary: ss bs)
  case Nil
  have "substitute str [] = (\<lambda>seg. seg)"
  proof
    fix seg show "substitute str [] seg = seg" by (cases seg) simp_all
  qed
  then show ?case by simp
next
  case (Cons item items)
  obtain k val where item: "item = (k, val)" by (cases item)
  have kv: "CHR ''}'' \<notin> set k" "CHR ''{'' \<notin> set (str val)" "plain_context str items"
    using Cons.prems(3) by (simp_all add: plain_context_def item)
  let ?ss = "map (replace_segment k (str val)) ss"
  let ?bs = "map (replace_segment k (str val)) bs"
  have p: "list_all plain_segment ?ss" "list_all plain_segment ?bs"
    using Cons.prems(1,2) kv(2) by (auto simp: list_all_iff replace_segment_plain)
  have "render_items str (item # items) (segments_text ss, segments_text bs)
      = render_items str items (segments_text ?ss, segments_text ?bs)"
    using replace_segments[OF Cons.prems(1) kv(1)] replace_segments[OF Cons.prems(2) kv(1)]
    by (simp add: item)
  also have "\<dots> = (segments_text (map (substitute str items) ?ss),
                     segments_text (map (substitute str items) ?bs))"
    by (rule Cons.IH[OF p kv(3)])
  finally show ?case by (simp add: item substitute_step comp_def)
qed

text \<open>
  C7, as stated: every placeholder whose key the context has becomes the stringified
  value of that key. With the context \<open>{a: "{{b}}", b: "x"}\<close> the body \<open>{{a}}\<close>
  should become \<open>{{b}}\<close>, the value of \<open>a\<close>; the code, which replaces entry after
  entry in the text produced so far, replaces that value again and yields \<open>x\<close>.
\<close>

theorem render_substitutes_context_values_counterexample:
  "tsubject echo_template = segments_text [Lit ''Echo'']
   \<and> tbody echo_template = segments_text [Var ''a'']
   \<and> render (\<lambda>s. s) echo_template [(''a'', ''{{b}}''), (''b'', ''x'')] = (''Echo'', ''x'')
   \<and> render_spec (\<lambda>s. s) [Lit ''Echo''] [Var ''a''] [(''a'', ''{{b}}''), (''b'', ''x'')]
        = (''Echo'', ''{{b}}'')
   \<and> render (\<lambda>s. s) echo_template [(''a'', ''{{b}}''), (''b'', ''x'')]
        \<noteq> render_spec (\<lambda>s. s) [Lit ''Echo''] [Var ''a''] [(''a'', ''{{b}}''), (''b'', ''x'')]"
  by (simp add: echo_template_def render_def render_spec_def segments_text_def placeholder_def
      str_replace_def)

text \<open>
  C7, amended. For a template whose subject and body are made of literal text without
  an opening brace and of placeholders whose names have no brace, and a context whose
  keys have no closing brace and whose stringified values have no opening brace,
  \<^verbatim>\<open>render\<close> returns the subject and the body with every placeholder whose key the
  context has replaced by the stringified value, and every other placeholder left as it
  is. No input makes it raise: it is a total function.
\<close>

theorem render_substitutes_context_values:
  assumes "tsubject t = segments_text subject_segments" "tbody t = segments_text body_segments"
    and "list_all plain_segment subject_segments" "list_all plain_segment body_segments"
    and "plain_context str context"
  shows "render str t context = render_spec str subject_segments body_segments context"
  using render_items_segments[OF assms(3-5)] by (simp add: render_def render_spec_def assms(1,2))

theorem render_substitutes_context_values_witness:
  "tsubject status_template = segments_text [Lit ''Status for '', Var ''name'']
   \<and> tbody status_template
       = segments_text [Lit ''Hi '', Var ''name'', Lit '', status '', Var ''status'']
   \<and> list_all plain_segment [Lit ''Status for '', Var ''name'']
   \<and> list_all plain_segment [Lit ''Hi '', Var ''name'', Lit '', status '', Var ''status'']
   \<and> plain_context (\<lambda>s. s) [(''name'', ''Alice'')]
   \<and> render (\<lambda>s. s) status_template [(''name'', ''Alice'')]
       = (''Status for Alice'', ''Hi Alice, status {{status}}'')"
proof -
  have h: "tsubject status_template = segments_text [Lit ''Status for '', Var ''name'']"
    "tbody status_template
       = segments_text [Lit ''Hi '', Var ''name'', Lit '', status '', Var ''status'']"
    "list_all plain_segment [Lit ''Status for '', Var ''name'']"
    "list_all plain_segment [Lit ''Hi '', Var ''name'', Lit '', status '', Var ''status'']"
    "plain_context (\<lambda>s. s) [(''name'', ''Alice'')]"
    by (simp_all add: status_template_def segments_text_def placeholder_def brace_free_def
        plain_context_def)
  show ?thesis
    using h render_substitutes_context_values [OF h]
    by (simp add: render_spec_def segments_text_def placeholder_def)
qed


end
